theory Spec2Isabelle
  imports Main
begin

section \<open>Python values and exceptions\<close>

text \<open>An exception with its message; \<open>OtherError\<close> is any class not named here.\<close>

datatype exn =
    TypeError string
  | AttributeError string
  | ValueError string
  | OverflowError string
  | KeyError string
  | RuntimeError string
  | OtherError string

text \<open>
  A float: a finite one is a mantissa and a binary exponent, \<open>Finite m e\<close> for
  \<open>m * 2 ^ e\<close>, which every finite double is; the infinities and the NaN are apart.
\<close>

datatype pyfloat = Finite int int | Inf | NaN

text \<open>
  The values that reach the application from its callers. Text is kept as a list of code
  points below 256 (one \<open>char\<close> each), a byte string as a list of bytes. \<open>PyObject\<close>
  stands for an instance of any other class: its class name, and what \<^verbatim>\<open>int()\<close>
  makes of the instance -- the integer its own conversion method returns or the exception
  it raises -- or \<open>None\<close> when \<^verbatim>\<open>int()\<close> does not take instances of the class.
\<close>

datatype pyval =
    PyNone
  | PyBool bool
  | PyInt int
  | PyFloat pyfloat
  | PyStr string
  | PyBytes string
  | PyObject string "(exn + int) option"

text \<open>\<^verbatim>\<open>type(v).__name__\<close>\<close>

fun type_name :: "pyval \<Rightarrow> string" where
  "type_name PyNone = ''NoneType''"
| "type_name (PyBool b) = ''bool''"
| "type_name (PyInt n) = ''int''"
| "type_name (PyFloat f) = ''float''"
| "type_name (PyStr s) = ''str''"
| "type_name (PyBytes b) = ''bytes''"
| "type_name (PyObject c r) = c"

section \<open>The credential store (app/models.py)\<close>

text \<open>
  The stored hash of a password. It is the self-describing string of the hashing
  primitive, with its three parts (algorithm tag, salt, digest) kept apart.
\<close>

datatype hash_string = HashString (hs_tag: string) (hs_salt: string) (hs_digest: string)

text \<open>
  The columns of \<^verbatim>\<open>User\<close>. Every column is nullable; a row that has not been
  inserted yet has no id.
\<close>

record user =
  uid :: "int option"
  username :: "string option"
  email :: "string option"
  role_id :: "int option"
  password_hash :: "hash_string option"
  confirmed :: "bool option"

text \<open>
  \<^verbatim>\<open>User.password\<close>, the getter: it raises whatever the state of the user.
\<close>

definition password_getter :: "user \<Rightarrow> exn + pyval" where
  "password_getter self = Inl (AttributeError ''password is a write-only attribute'')"

text \<open>
  \<^verbatim>\<open>User.password\<close>, the setter. \<open>gen\<close> is the call
  \<^verbatim>\<open>generate_password_hash(password)\<close> of the hashing library. The assignment to
  \<open>password_hash\<close> happens once that call has returned; a \<open>TypeError\<close> of the
  library is replaced by one that names the type of the password, any other exception
  passes through. The result is what the caller sees together with the user afterwards.
\<close>

definition password_setter ::
  "(pyval \<Rightarrow> exn + hash_string) \<Rightarrow> user \<Rightarrow> pyval \<Rightarrow> (exn + unit) \<times> user" where
  "password_setter gen self password =
     (case gen password of
        Inr h \<Rightarrow> (Inr (), self\<lparr>password_hash := Some h\<rparr>)
      | Inl (TypeError m) \<Rightarrow>
          (Inl (TypeError (''cannot hash a '' @ type_name password @ '' type'')), self)
      | Inl e \<Rightarrow> (Inl e, self))"

text \<open>
  \<^verbatim>\<open>User.verify_password\<close>. \<open>chk\<close> is the library's
  \<^verbatim>\<open>check_password_hash\<close>, called with the stored column as it is.
\<close>

definition verify_password ::
  "(hash_string option \<Rightarrow> pyval \<Rightarrow> exn + bool) \<Rightarrow> user \<Rightarrow> pyval \<Rightarrow> exn + bool" where
  "verify_password chk self password =
     (case chk (password_hash self) password of
        Inr password_is_correct \<Rightarrow> Inr password_is_correct
      | Inl (TypeError m) \<Rightarrow>
          Inl (TypeError (''cannot hash a '' @ type_name password @ '' type''))
      | Inl e \<Rightarrow> Inl e)"

subsection \<open>The hashing primitive\<close>

text \<open>
  Modelled from the spec: the conversion of a password to the byte sequence that the
  hashing primitive requires, which is part of werkzeug.security and absent like the
  primitive. Sections 4.1 and 7: a value is accepted when it converts to a byte sequence
  and rejected otherwise. The convertible values are the ones the comments of the setter
  name, a string or bytes: text is encoded as UTF-8, a byte string is taken as it is,
  nothing else has a byte form.
\<close>

definition utf8_char :: "char \<Rightarrow> string" where
  "utf8_char c =
     (let n = (of_char c :: nat)
      in if n < 128 then [c]
         else [char_of (192 + n div 64), char_of (128 + n mod 64)])"

definition utf8 :: "string \<Rightarrow> string" where
  "utf8 s = concat (map utf8_char s)"

fun to_bytes :: "pyval \<Rightarrow> string option" where
  "to_bytes (PyStr s) = Some (utf8 s)"
| "to_bytes (PyBytes b) = Some b"
| "to_bytes PyNone = None"
| "to_bytes (PyBool t) = None"
| "to_bytes (PyInt n) = None"
| "to_bytes (PyFloat f) = None"
| "to_bytes (PyObject c r) = None"

text \<open>
  Modelled from the spec: \<^verbatim>\<open>generate_password_hash\<close> of werkzeug.security, which
  the repository imports and does not contain. Section 4.1: a salted hash of the
  password, a self-describing string of algorithm tag, salt and digest; any value
  convertible to a byte sequence is accepted, any other fails. The digest function
  \<open>dg\<close> (tag, salt, bytes), the tag \<open>method\<close> and the salt drawn for this call are
  parameters.
\<close>

definition generate_password_hash ::
  "(string \<Rightarrow> string \<Rightarrow> string \<Rightarrow> string) \<Rightarrow> string \<Rightarrow> string \<Rightarrow> pyval \<Rightarrow> exn + hash_string" where
  "generate_password_hash dg method salt password =
     (case to_bytes password of
        None \<Rightarrow> Inl (TypeError ''Expected bytes'')
      | Some b \<Rightarrow> Inr (HashString method salt (dg method salt b)))"

text \<open>
  Modelled from the spec: \<^verbatim>\<open>check_password_hash\<close> of werkzeug.security, absent
  like the former. Section 4.1: true iff hashing the candidate under the stored hash's
  parameters reproduces the stored hash, false on mismatch; with a stored hash it fails
  under the same convertibility condition as hashing does. The stored hash is read first,
  since its tag and salt are what the candidate is hashed under: with no stored hash there
  is nothing to read, and the call fails on the missing value with an
  \<open>AttributeError\<close>, whatever the candidate is.
\<close>

definition check_password_hash ::
  "(string \<Rightarrow> string \<Rightarrow> string \<Rightarrow> string) \<Rightarrow> hash_string option \<Rightarrow> pyval \<Rightarrow> exn + bool" where
  "check_password_hash dg pwhash password =
     (case pwhash of
        None \<Rightarrow> Inl (AttributeError ''NoneType object has no attribute count'')
      | Some h \<Rightarrow>
          (case to_bytes password of
             None \<Rightarrow> Inl (TypeError ''Expected bytes'')
           | Some b \<Rightarrow> Inr (HashString (hs_tag h) (hs_salt h) (dg (hs_tag h) (hs_salt h) b) = h)))"





text \<open>A digest for the concrete runs below: the salt followed by the bytes.\<close>

definition salt_prefix_digest :: "string \<Rightarrow> string \<Rightarrow> string \<Rightarrow> string" where
  "salt_prefix_digest method salt b = salt @ b"

text \<open>\<^verbatim>\<open>User()\<close>: no column set.\<close>

definition new_user :: user where
  "new_user = \<lparr>uid = None, username = None, email = None, role_id = None,
               password_hash = None, confirmed = None\<rparr>"

section \<open>The user directory (app/models.py)\<close>

text \<open>
  Python's \<^verbatim>\<open>int(v)\<close> (CPython 3, with its defaults). A text or a byte string is
  read as a decimal literal: white space around it is dropped, then comes an optional
  sign, then digits, where one underscore may stand between two digits, and no more than
  4300 digits; anything else is a \<open>ValueError\<close>. The white space of a byte string is
  the ASCII one; in a text the next-line and no-break-space characters count as well (the
  separators U+001C to U+001F do not).
\<close>

definition is_ascii_space :: "char \<Rightarrow> bool" where
  "is_ascii_space c = (let n = (of_char c :: nat) in (9 \<le> n \<and> n \<le> 13) \<or> n = 32)"

definition is_space :: "char \<Rightarrow> bool" where
  "is_space c = (is_ascii_space c \<or> (of_char c :: nat) = 133 \<or> (of_char c :: nat) = 160)"

definition strip :: "(char \<Rightarrow> bool) \<Rightarrow> string \<Rightarrow> string" where
  "strip sp s = rev (dropWhile sp (rev (dropWhile sp s)))"

definition is_digit :: "char \<Rightarrow> bool" where
  "is_digit c = (48 \<le> (of_char c :: nat) \<and> (of_char c :: nat) \<le> 57)"

definition digits_value :: "string \<Rightarrow> int" where
  "digits_value ds = foldl (\<lambda>acc c. 10 * acc + (int (of_char c) - 48)) 0 ds"

text \<open>
  The digits of a literal, read from the left; the flag says whether the character before
  was a digit. An underscore needs a digit before it, and the literal ends on a digit.
\<close>

fun digit_groups :: "bool \<Rightarrow> string \<Rightarrow> bool" where
  "digit_groups after_digit [] = after_digit"
| "digit_groups after_digit (c # cs) =
     (if is_digit c then digit_groups True cs
      else if c = CHR ''_'' \<and> after_digit then digit_groups False cs
      else False)"

definition parse_digits :: "string \<Rightarrow> exn + int" where
  "parse_digits ds =
     (if \<not> digit_groups False ds then Inl (ValueError ''invalid literal for int() with base 10'')
      else if 4300 < length (filter is_digit ds)
        then Inl (ValueError ''Exceeds the limit (4300 digits) for integer string conversion'')
      else Inr (digits_value (filter is_digit ds)))"

definition parse_int :: "(char \<Rightarrow> bool) \<Rightarrow> string \<Rightarrow> exn + int" where
  "parse_int sp s =
     (case strip sp s of
        [] \<Rightarrow> Inl (ValueError ''invalid literal for int() with base 10'')
      | c # cs \<Rightarrow>
          if c = CHR ''-'' then map_sum id uminus (parse_digits cs)
          else if c = CHR ''+'' then parse_digits cs
          else parse_digits (c # cs))"

text \<open>A finite float is cut off towards zero.\<close>

definition float_trunc :: "int \<Rightarrow> int \<Rightarrow> int" where
  "float_trunc m e =
     (if 0 \<le> e then m * 2 ^ nat e else sgn m * (\<bar>m\<bar> div 2 ^ nat (- e)))"

text \<open>
  The cases of \<^verbatim>\<open>int(v)\<close>: a truth value is 1 or 0, an integer is itself, a finite
  float is cut off, an infinity is an \<open>OverflowError\<close> and a NaN a \<open>ValueError\<close>; text
  and bytes are read as literals; an instance of another class is converted by its own
  method, with that method's result or exception; there is no integer for \<open>None\<close> or
  for an instance of a class without such a method, which is a \<open>TypeError\<close>.
\<close>

fun py_int :: "pyval \<Rightarrow> exn + int" where
  "py_int PyNone =
     Inl (TypeError (''int() argument must be a string, a bytes-like object or a real number, not ''
            @ type_name PyNone))"
| "py_int (PyBool t) = Inr (if t then 1 else 0)"
| "py_int (PyInt n) = Inr n"
| "py_int (PyFloat (Finite m e)) = Inr (float_trunc m e)"
| "py_int (PyFloat Inf) = Inl (OverflowError ''cannot convert float infinity to integer'')"
| "py_int (PyFloat NaN) = Inl (ValueError ''cannot convert float NaN to integer'')"
| "py_int (PyStr s) = parse_int is_space s"
| "py_int (PyBytes b) = parse_int is_ascii_space b"
| "py_int (PyObject c None) =
     Inl (TypeError (''int() argument must be a string, a bytes-like object or a real number, not ''
            @ c))"
| "py_int (PyObject c (Some r)) = r"

text \<open>
  Modelled from the spec: the storage layer behind \<^verbatim>\<open>User.query\<close>
  (Flask-SQLAlchemy), which the repository imports and does not contain. Sections 4.2
  and 6: reading users needs an active storage context and fails with the
  storage-unavailable error (a \<open>RuntimeError\<close>) without one; a lookup by primary key
  returns the row with that id, or nothing. The context is the rows of the users table
  when one is active and \<open>None\<close> otherwise.
\<close>

definition User_query :: "user list option \<Rightarrow> exn + user list" where
  "User_query ctx =
     (case ctx of
        None \<Rightarrow> Inl (RuntimeError ''no application bound to current context'')
      | Some rows \<Rightarrow> Inr rows)"

definition query_get :: "user list \<Rightarrow> int \<Rightarrow> user option" where
  "query_get rows k = find (\<lambda>u. uid u = Some k) rows"

text \<open>
  \<^verbatim>\<open>load_user\<close>: \<^verbatim>\<open>User.query.get(int(user_id))\<close>. Python evaluates the callee
  \<^verbatim>\<open>User.query.get\<close> before the argument \<^verbatim>\<open>int(user_id)\<close>, and the call last.
\<close>

definition load_user :: "user list option \<Rightarrow> pyval \<Rightarrow> exn + user option" where
  "load_user ctx user_id =
     (case User_query ctx of
        Inl e \<Rightarrow> Inl e
      | Inr q \<Rightarrow>
          (case py_int user_id of
             Inl e \<Rightarrow> Inl e
           | Inr k \<Rightarrow> Inr (query_get q k)))"

section \<open>The notification dispatcher (app/emails.py, config.py)\<close>

text \<open>The mail settings of \<^verbatim>\<open>Config\<close>, which every configuration inherits.\<close>

definition Config :: "string \<rightharpoonup> string" where
  "Config = map_of
     [(''NAMENEST_MAIL_SUBJECT_PREFIX'', ''[NameNest]''),
      (''NAMENEST_MAIL_SENDER'', ''NameNest Admin <namenest@gmail.com>'')]"

record flask_app =
  config :: "string \<rightharpoonup> string"

text \<open>A \<^verbatim>\<open>Message\<close> of the mail extension, with the fields the code sets.\<close>

record message =
  m_subject :: string
  m_sender :: string
  m_recipients :: "string list"
  m_body :: "string option"
  m_html :: "string option"

text \<open>A thread whose target is \<^verbatim>\<open>send_email\<close>, with the arguments it was given.\<close>

record thread =
  t_app :: flask_app
  t_msg :: message

text \<open>
  \<^verbatim>\<open>send_email\<close>: within the context of \<open>app\<close>, hand the message to the mail
  extension. \<open>mail\<close> is \<^verbatim>\<open>mail.send\<close> under that context, with whatever the
  transport raises.
\<close>

definition send_email ::
  "(flask_app \<Rightarrow> message \<Rightarrow> exn + unit) \<Rightarrow> flask_app \<Rightarrow> message \<Rightarrow> exn + unit" where
  "send_email mail app msg = mail app msg"

text \<open>
  \<^verbatim>\<open>send_async_email\<close>. \<open>current_app\<close> is the application of the active context,
  if any; \<open>render\<close> is \<^verbatim>\<open>render_template\<close>; \<open>started\<close> are the threads started so
  far. The steps are in the order of the source: the application, the message with its
  subject, sender and recipients, the two bodies, then the thread. Whatever a step raises
  reaches the caller, and no thread is started then.
\<close>

definition send_async_email ::
  "flask_app option \<Rightarrow> (string \<Rightarrow> (string \<rightharpoonup> pyval) \<Rightarrow> exn + string) \<Rightarrow> thread list \<Rightarrow>
   string \<Rightarrow> string \<Rightarrow> string \<Rightarrow> (string \<rightharpoonup> pyval) \<Rightarrow> (exn + thread) \<times> thread list" where
  "send_async_email current_app render started recipient subject template context =
     (case current_app of
        None \<Rightarrow> (Inl (RuntimeError ''working outside of application context''), started)
      | Some app \<Rightarrow>
     (case config app ''NAMENEST_MAIL_SUBJECT_PREFIX'' of
        None \<Rightarrow> (Inl (KeyError ''NAMENEST_MAIL_SUBJECT_PREFIX''), started)
      | Some prefix \<Rightarrow>
     (case config app ''NAMENEST_MAIL_SENDER'' of
        None \<Rightarrow> (Inl (KeyError ''NAMENEST_MAIL_SENDER''), started)
      | Some sndr \<Rightarrow>
     (let msg = \<lparr>m_subject = prefix @ '' '' @ subject, m_sender = sndr,
                 m_recipients = [recipient], m_body = None, m_html = None\<rparr>
      in case render (template @ ''.txt'') context of
        Inl e \<Rightarrow> (Inl e, started)
      | Inr b \<Rightarrow>
     (case render (template @ ''.html'') context of
        Inl e \<Rightarrow> (Inl e, started)
      | Inr h \<Rightarrow>
     (let thread = \<lparr>t_app = app, t_msg = msg\<lparr>m_body := Some b, m_html := Some h\<rparr>\<rparr>
      in (Inr thread, started @ [thread])))))))"

text \<open>
  What a started thread does: it runs its target, and an exception of the target ends the
  thread and goes to the thread's own error report. The result is that report; a thread
  has no caller to raise to.
\<close>

definition thread_run :: "(flask_app \<Rightarrow> message \<Rightarrow> exn + unit) \<Rightarrow> thread \<Rightarrow> exn list" where
  "thread_run mail th =
     (case send_email mail (t_app th) (t_msg th) of
        Inl e \<Rightarrow> [e]
      | Inr u \<Rightarrow> [])"

text \<open>
  A call of \<^verbatim>\<open>send_async_email\<close> followed by the run of every started thread: what the
  caller got, and the error reports of the threads.
\<close>

definition send_async_email_then_run ::
  "(flask_app \<Rightarrow> message \<Rightarrow> exn + unit) \<Rightarrow> flask_app option \<Rightarrow>
   (string \<Rightarrow> (string \<rightharpoonup> pyval) \<Rightarrow> exn + string) \<Rightarrow> thread list \<Rightarrow>
   string \<Rightarrow> string \<Rightarrow> string \<Rightarrow> (string \<rightharpoonup> pyval) \<Rightarrow> (exn + thread) \<times> exn list" where
  "send_async_email_then_run mail current_app render started recipient subject template context =
     (case send_async_email current_app render started recipient subject template context of
        (r, started') \<Rightarrow> (r, concat (map (thread_run mail) started')))"

text \<open>Renderers and transports for the concrete runs below.\<close>

definition render_name :: "string \<Rightarrow> (string \<rightharpoonup> pyval) \<Rightarrow> exn + string" where
  "render_name name context = Inr (''rendered '' @ name)"

definition render_missing :: "string \<Rightarrow> (string \<rightharpoonup> pyval) \<Rightarrow> exn + string" where
  "render_missing name context = Inl (OtherError ''TemplateNotFound'')"

definition mail_refused :: "flask_app \<Rightarrow> message \<Rightarrow> exn + unit" where
  "mail_refused app msg = Inl (OtherError ''ConnectionRefusedError'')"

text \<open>The template variables and the users table of the concrete runs below.\<close>

definition confirm_context :: "string \<rightharpoonup> pyval" where
  "confirm_context = map_of [(''token'', PyStr ''abc'')]"

definition two_users :: "user list" where
  "two_users = [new_user\<lparr>uid := Some 1, username := Some ''ann''\<rparr>,
                new_user\<lparr>uid := Some 2, username := Some ''bob''\<rparr>]"

section \<open>Properties of the credential store\<close>

text \<open>
  C3. Reading the password property fails with the access error (an
  \<open>AttributeError\<close>) for every user, also right after a password has been set, whatever
  the hashing call did; no value is ever returned.
\<close>

theorem password_getter_always_raises:
  "password_getter u = Inl (AttributeError ''password is a write-only attribute'')
   \<and> password_getter (snd (password_setter gen u p))
       = Inl (AttributeError ''password is a write-only attribute'')
   \<and> (\<nexists>v. password_getter u = Inr v)"
  by (simp add: password_getter_def)

text \<open>
  C9. A call of the setter that fails leaves the user as it was: the stored hash and every
  other column are unchanged. This holds for any failure of the hashing call.
\<close>

theorem password_setter_failure_keeps_user:
  "fst (password_setter gen u p) = Inl e \<Longrightarrow> snd (password_setter gen u p) = u"
  by (auto simp: password_setter_def split: sum.splits exn.splits)

theorem password_setter_failure_keeps_user_witness:
  "fst (password_setter (generate_password_hash salt_prefix_digest ''pbkdf2:sha1'' ''Xy12abCD'')
          (new_user\<lparr>username := Some ''ann''\<rparr>) (PyInt 5))
     = Inl (TypeError ''cannot hash a int type'')
   \<and> snd (password_setter (generate_password_hash salt_prefix_digest ''pbkdf2:sha1'' ''Xy12abCD'')
          (new_user\<lparr>username := Some ''ann''\<rparr>) (PyInt 5))
     = new_user\<lparr>username := Some ''ann''\<rparr>"
proof -
  have f: "fst (password_setter (generate_password_hash salt_prefix_digest ''pbkdf2:sha1'' ''Xy12abCD'')
          (new_user\<lparr>username := Some ''ann''\<rparr>) (PyInt 5))
     = Inl (TypeError ''cannot hash a int type'')"
    by (simp add: password_setter_def generate_password_hash_def)
  show ?thesis
    using f password_setter_failure_keeps_user [OF f] by simp
qed

text \<open>
  C1. A password that has a byte form can be set, and verifying the same password against
  the user afterwards returns true, for every digest function, tag and salt.
\<close>

theorem set_then_verify_same_password:
  "to_bytes p = Some b \<Longrightarrow>
     fst (password_setter (generate_password_hash dg m salt) u p) = Inr ()
     \<and> verify_password (check_password_hash dg)
         (snd (password_setter (generate_password_hash dg m salt) u p)) p = Inr True"
  by (simp add: password_setter_def verify_password_def generate_password_hash_def
      check_password_hash_def)

theorem set_then_verify_same_password_witness:
  "to_bytes (PyStr ''flaskisawesome'') = Some ''flaskisawesome''
   \<and> fst (password_setter (generate_password_hash salt_prefix_digest ''pbkdf2:sha1'' ''Xy12abCD'')
          new_user (PyStr ''flaskisawesome'')) = Inr ()
   \<and> verify_password (check_password_hash salt_prefix_digest)
       (snd (password_setter (generate_password_hash salt_prefix_digest ''pbkdf2:sha1'' ''Xy12abCD'')
          new_user (PyStr ''flaskisawesome''))) (PyStr ''flaskisawesome'') = Inr True"
proof -
  have b: "to_bytes (PyStr ''flaskisawesome'') = Some ''flaskisawesome''"
    by (simp add: utf8_def utf8_char_def)
  show ?thesis
    using b set_then_verify_same_password [OF b, of salt_prefix_digest "''pbkdf2:sha1''"
        "''Xy12abCD''" new_user]
    by simp
qed

text \<open>
  C2, as stated, fails: a text and the byte string of its UTF-8 encoding are different
  values, both have a byte form, and after the first is set the second verifies.
\<close>

theorem verify_other_password_counterexample:
  "PyStr ''flaskisawesome'' \<noteq> PyBytes ''flaskisawesome''
   \<and> to_bytes (PyStr ''flaskisawesome'') = Some ''flaskisawesome''
   \<and> to_bytes (PyBytes ''flaskisawesome'') = Some ''flaskisawesome''
   \<and> verify_password (check_password_hash salt_prefix_digest)
       (snd (password_setter (generate_password_hash salt_prefix_digest ''pbkdf2:sha1'' ''Xy12abCD'')
          new_user (PyStr ''flaskisawesome''))) (PyBytes ''flaskisawesome'') = Inr True"
  by (simp add: password_setter_def verify_password_def generate_password_hash_def
      check_password_hash_def utf8_def utf8_char_def)

text \<open>
  C2, amended. After a password with bytes \<open>b1\<close> is set, a candidate with bytes \<open>b2\<close>
  whose digest under the tag and salt of that call differs from the digest of \<open>b1\<close> is
  rejected. In general, verification returns true iff the candidate has a byte form, the
  user has a stored hash, and hashing the candidate under the tag and salt of the stored
  hash gives the stored hash again.
\<close>

theorem verify_password_true_iff_rehash:
  "(to_bytes p1 = Some b1 \<and> to_bytes p2 = Some b2 \<and> dg m salt b1 \<noteq> dg m salt b2 \<longrightarrow>
      verify_password (check_password_hash dg)
        (snd (password_setter (generate_password_hash dg m salt) u p1)) p2 = Inr False)
   \<and> (verify_password (check_password_hash dg) u p = Inr True \<longleftrightarrow>
        (\<exists>h. password_hash u = Some h
           \<and> generate_password_hash dg (hs_tag h) (hs_salt h) p = Inr h))"
proof (intro conjI impI)
  assume "to_bytes p1 = Some b1 \<and> to_bytes p2 = Some b2 \<and> dg m salt b1 \<noteq> dg m salt b2"
  then show "verify_password (check_password_hash dg)
        (snd (password_setter (generate_password_hash dg m salt) u p1)) p2 = Inr False"
    by (auto simp: password_setter_def verify_password_def generate_password_hash_def
        check_password_hash_def)
next
  show "verify_password (check_password_hash dg) u p = Inr True \<longleftrightarrow>
        (\<exists>h. password_hash u = Some h
           \<and> generate_password_hash dg (hs_tag h) (hs_salt h) p = Inr h)"
    by (cases "to_bytes p"; cases "password_hash u")
      (auto simp: verify_password_def generate_password_hash_def check_password_hash_def)
qed

theorem verify_password_true_iff_rehash_witness:
  "to_bytes (PyStr ''flaskisawesome'') = Some ''flaskisawesome''
   \<and> to_bytes (PyStr ''flaskisnotawesome'') = Some ''flaskisnotawesome''
   \<and> salt_prefix_digest ''pbkdf2:sha1'' ''Xy12abCD'' ''flaskisawesome''
       \<noteq> salt_prefix_digest ''pbkdf2:sha1'' ''Xy12abCD'' ''flaskisnotawesome''
   \<and> verify_password (check_password_hash salt_prefix_digest)
       (snd (password_setter (generate_password_hash salt_prefix_digest ''pbkdf2:sha1'' ''Xy12abCD'')
          new_user (PyStr ''flaskisawesome''))) (PyStr ''flaskisnotawesome'') = Inr False"
proof -
  have h: "to_bytes (PyStr ''flaskisawesome'') = Some ''flaskisawesome''
      \<and> to_bytes (PyStr ''flaskisnotawesome'') = Some ''flaskisnotawesome''
      \<and> salt_prefix_digest ''pbkdf2:sha1'' ''Xy12abCD'' ''flaskisawesome''
          \<noteq> salt_prefix_digest ''pbkdf2:sha1'' ''Xy12abCD'' ''flaskisnotawesome''"
    by (simp add: utf8_def utf8_char_def salt_prefix_digest_def)
  show ?thesis
    using h verify_password_true_iff_rehash [of "PyStr ''flaskisawesome''" "''flaskisawesome''"
        "PyStr ''flaskisnotawesome''" "''flaskisnotawesome''" salt_prefix_digest
        "''pbkdf2:sha1''" "''Xy12abCD''" new_user]
    by blast
qed







section \<open>Properties of the user directory\<close>

text \<open>Runs of \<^verbatim>\<open>int()\<close>: literals, separators, underscores, truth values, floats.\<close>

lemma py_int_literals:
  "py_int (PyStr '' 42 '') = Inr 42"
  "py_int (PyStr ''-7'') = Inr (- 7)"
  "py_int (PyStr ''1_0'') = Inr 10"
  "py_int (PyStr ''1__0'') = Inl (ValueError ''invalid literal for int() with base 10'')"
  "py_int (PyStr ''_1'') = Inl (ValueError ''invalid literal for int() with base 10'')"
  "py_int (PyStr [CHR 0x1C, CHR ''2'']) = Inl (ValueError ''invalid literal for int() with base 10'')"
  "py_int (PyStr [CHR 0xA0, CHR ''2'']) = Inr 2"
  "py_int (PyBytes [CHR 0xA0, CHR ''2'']) = Inl (ValueError ''invalid literal for int() with base 10'')"
  "py_int (PyStr []) = Inl (ValueError ''invalid literal for int() with base 10'')"
  by (simp_all add: parse_int_def strip_def is_space_def is_ascii_space_def parse_digits_def
      is_digit_def digits_value_def)

lemma py_int_numbers:
  "py_int (PyBool True) = Inr 1"
  "py_int (PyFloat (Finite 5 (- 1))) = Inr 2"
  "py_int (PyFloat (Finite (- 5) (- 1))) = Inr (- 2)"
  "py_int (PyFloat (Finite 3 2)) = Inr 12"
  "py_int (PyFloat Inf) = Inl (OverflowError ''cannot convert float infinity to integer'')"
  "py_int (PyObject ''Decimal'' (Some (Inr 7))) = Inr 7"
  by (simp_all add: float_trunc_def)

lemma find_in_set:
  "\<exists>u\<in>set rows. P u \<Longrightarrow> \<exists>u. find P rows = Some u \<and> P u \<and> u \<in> set rows"
  by (induction rows) auto

lemma find_not_in_set: "\<forall>u\<in>set rows. \<not> P u \<Longrightarrow> find P rows = None"
  by (induction rows) auto

text \<open>
  C5. For an identifier that converts to the integer \<open>k\<close>: with an active storage
  context, \<open>load_user\<close> returns a stored user whose id is \<open>k\<close> when there is one, and
  the empty result, not an error, when there is none; without a storage context it fails
  with the storage-unavailable error (a \<open>RuntimeError\<close>).
\<close>

theorem load_user_convertible:
  "py_int ident = Inr k \<Longrightarrow>
     (\<forall>rows :: user list. (\<exists>u\<in>set rows. uid u = Some k) \<longrightarrow>
        (\<exists>u. load_user (Some rows) ident = Inr (Some u) \<and> uid u = Some k \<and> u \<in> set rows))
     \<and> (\<forall>rows :: user list. (\<forall>u\<in>set rows. uid u \<noteq> Some k) \<longrightarrow> load_user (Some rows) ident = Inr None)
     \<and> (\<exists>m. load_user None ident = Inl (RuntimeError m))"
proof (intro conjI allI impI)
  fix rows :: "user list"
  assume k: "py_int ident = Inr k" and ex: "\<exists>u\<in>set rows. uid u = Some k"
  from find_in_set [of rows "\<lambda>u. uid u = Some k", OF ex]
  obtain u where "find (\<lambda>u. uid u = Some k) rows = Some u" "uid u = Some k" "u \<in> set rows"
    by blast
  with k show "\<exists>u. load_user (Some rows) ident = Inr (Some u) \<and> uid u = Some k \<and> u \<in> set rows"
    by (simp add: load_user_def User_query_def query_get_def)
next
  fix rows :: "user list"
  assume k: "py_int ident = Inr k" and no: "\<forall>u\<in>set rows. uid u \<noteq> Some k"
  from find_not_in_set [of rows "\<lambda>u. uid u = Some k", OF no] k
  show "load_user (Some rows) ident = Inr None"
    by (simp add: load_user_def User_query_def query_get_def)
next
  show "\<exists>m. load_user None ident = Inl (RuntimeError m)"
    by (simp add: load_user_def User_query_def)
qed

theorem load_user_convertible_witness:
  "py_int (PyStr ''2'') = Inr 2
   \<and> (\<exists>u. load_user (Some two_users) (PyStr ''2'') = Inr (Some u) \<and> uid u = Some 2
          \<and> u \<in> set two_users)
   \<and> py_int (PyFloat (Finite 7 (- 1))) = Inr 3
   \<and> load_user (Some two_users) (PyFloat (Finite 7 (- 1))) = Inr None
   \<and> (\<exists>m. load_user None (PyStr ''2'') = Inl (RuntimeError m))"
proof -
  have k2: "py_int (PyStr ''2'') = Inr 2"
    by (simp add: parse_int_def strip_def is_space_def is_ascii_space_def parse_digits_def
        is_digit_def digits_value_def)
  have k3: "py_int (PyFloat (Finite 7 (- 1))) = Inr 3"
    by (simp add: float_trunc_def)
  have e2: "\<exists>u\<in>set two_users. uid u = Some 2"
    by (simp add: two_users_def new_user_def)
  have n3: "\<forall>u\<in>set two_users. uid u \<noteq> Some 3"
    by (simp add: two_users_def new_user_def)
  show ?thesis
    using k2 k3 e2 n3 load_user_convertible [OF k2] load_user_convertible [OF k3]
    by blast
qed

text \<open>
  C10, as stated, fails: without a storage context the lookup of \<^verbatim>\<open>User.query\<close>
  fails before the identifier is converted, so an identifier that is no integer is
  answered with the storage-unavailable error, not with the conversion error.
\<close>

theorem load_user_no_context_counterexample:
  "py_int (PyStr ''abc'') = Inl (ValueError ''invalid literal for int() with base 10'')
   \<and> load_user None (PyStr ''abc'')
       = Inl (RuntimeError ''no application bound to current context'')"
  by (simp add: load_user_def User_query_def parse_int_def strip_def is_space_def
      is_ascii_space_def parse_digits_def is_digit_def)

text \<open>
  C10, amended. With an active storage context, an identifier that does not convert to an
  integer makes \<open>load_user\<close> raise to the caller the very error that the conversion
  raised: the storage context was entered, and the result is neither the empty one nor
  any other. Without a storage context the call fails with the storage-unavailable error
  (a \<open>RuntimeError\<close>), whatever the identifier.
\<close>

theorem load_user_not_convertible:
  "(py_int ident = Inl e \<longrightarrow>
      User_query (Some rows) = Inr rows
      \<and> load_user (Some rows) ident = Inl e
      \<and> load_user (Some rows) ident \<noteq> Inr None)
   \<and> load_user None ident = Inl (RuntimeError ''no application bound to current context'')"
  by (simp add: load_user_def User_query_def)

theorem load_user_not_convertible_witness:
  "py_int (PyStr ''abc'') = Inl (ValueError ''invalid literal for int() with base 10'')
   \<and> load_user (Some two_users) (PyStr ''abc'')
       = Inl (ValueError ''invalid literal for int() with base 10'')
   \<and> load_user None (PyStr ''abc'')
       = Inl (RuntimeError ''no application bound to current context'')"
proof -
  have e: "py_int (PyStr ''abc'') = Inl (ValueError ''invalid literal for int() with base 10'')"
    by (simp add: parse_int_def strip_def is_space_def is_ascii_space_def parse_digits_def
        is_digit_def)
  show ?thesis
    using e load_user_not_convertible [of "PyStr ''abc''"
        "ValueError ''invalid literal for int() with base 10''" two_users]
    by simp
qed

section \<open>Properties of the notification dispatcher\<close>

text \<open>
  C6. With an application context whose configuration holds the subject prefix and the
  sender, and templates that render, the call returns the started thread, and the message
  handed to it has the prefix, a space and the given subject as its subject, the
  configured sender, the one given recipient, and the bodies rendered from the template
  name with \<^verbatim>\<open>.txt\<close> and \<^verbatim>\<open>.html\<close> under the given variables.
\<close>

theorem send_async_email_message:
  "config app ''NAMENEST_MAIL_SUBJECT_PREFIX'' = Some prefix \<Longrightarrow>
   config app ''NAMENEST_MAIL_SENDER'' = Some sndr \<Longrightarrow>
   render (template @ ''.txt'') context = Inr b \<Longrightarrow>
   render (template @ ''.html'') context = Inr h \<Longrightarrow>
     send_async_email (Some app) render started recipient subject template context
       = (Inr \<lparr>t_app = app,
               t_msg = \<lparr>m_subject = prefix @ '' '' @ subject, m_sender = sndr,
                        m_recipients = [recipient], m_body = Some b, m_html = Some h\<rparr>\<rparr>,
          started @ [\<lparr>t_app = app,
               t_msg = \<lparr>m_subject = prefix @ '' '' @ subject, m_sender = sndr,
                        m_recipients = [recipient], m_body = Some b, m_html = Some h\<rparr>\<rparr>])"
  by (simp add: send_async_email_def Let_def)

theorem send_async_email_message_witness:
  "config \<lparr>config = Config\<rparr> ''NAMENEST_MAIL_SUBJECT_PREFIX'' = Some ''[NameNest]''
   \<and> config \<lparr>config = Config\<rparr> ''NAMENEST_MAIL_SENDER'' = Some ''NameNest Admin <namenest@gmail.com>''
   \<and> render_name (''confirm'' @ ''.txt'') confirm_context = Inr ''rendered confirm.txt''
   \<and> render_name (''confirm'' @ ''.html'') confirm_context = Inr ''rendered confirm.html''
   \<and> fst (send_async_email (Some \<lparr>config = Config\<rparr>) render_name [] ''a@example.com''
          ''Confirm'' ''confirm'' confirm_context)
       = Inr \<lparr>t_app = \<lparr>config = Config\<rparr>,
              t_msg = \<lparr>m_subject = ''[NameNest] Confirm'',
                       m_sender = ''NameNest Admin <namenest@gmail.com>'',
                       m_recipients = [''a@example.com''],
                       m_body = Some ''rendered confirm.txt'',
                       m_html = Some ''rendered confirm.html''\<rparr>\<rparr>"
proof -
  have p: "config \<lparr>config = Config\<rparr> ''NAMENEST_MAIL_SUBJECT_PREFIX'' = Some ''[NameNest]''"
    by (simp add: Config_def)
  have s: "config \<lparr>config = Config\<rparr> ''NAMENEST_MAIL_SENDER''
             = Some ''NameNest Admin <namenest@gmail.com>''"
    by (simp add: Config_def)
  have t: "render_name (''confirm'' @ ''.txt'') confirm_context = Inr ''rendered confirm.txt''"
    by (simp add: render_name_def)
  have h: "render_name (''confirm'' @ ''.html'') confirm_context = Inr ''rendered confirm.html''"
    by (simp add: render_name_def)
  show ?thesis
    using p s t h
      send_async_email_message [of "\<lparr>config = Config\<rparr>" "''[NameNest]''"
        "''NameNest Admin <namenest@gmail.com>''" render_name "''confirm''" confirm_context
        "''rendered confirm.txt''" "''rendered confirm.html''" "[]" "''a@example.com''"
        "''Confirm''"]
    by simp
qed

text \<open>
  C7, as stated, fails: the templates are rendered by the caller, before any thread is
  started, and a template that fails to render reaches the caller of
  \<^verbatim>\<open>send_async_email\<close>.
\<close>

theorem render_error_reaches_caller_counterexample:
  "send_async_email (Some \<lparr>config = Config\<rparr>) render_missing [] ''a@example.com''
      ''Confirm'' ''confirm'' confirm_context
     = (Inl (OtherError ''TemplateNotFound''), [])"
  by (simp add: send_async_email_def Config_def render_missing_def)

text \<open>
  C7, amended. What the send does inside the started thread never changes what the caller
  of \<^verbatim>\<open>send_async_email\<close> got: a transport that fails leaves the caller with
  the thread handle, and the failure in the thread's own error report. A template that
  fails to render is raised to the caller, and no thread is started.
\<close>

theorem detached_send_failure_stays_in_thread:
  "fst (send_async_email_then_run mail current_app render started recipient subject template context)
     = fst (send_async_email current_app render started recipient subject template context)
   \<and> (config app ''NAMENEST_MAIL_SUBJECT_PREFIX'' = Some prefix
        \<and> config app ''NAMENEST_MAIL_SENDER'' = Some sndr
        \<and> render (template @ ''.txt'') context = Inr b
        \<and> render (template @ ''.html'') context = Inr h
        \<and> (\<forall>msg. mail app msg = Inl e) \<longrightarrow>
          (\<exists>th. send_async_email_then_run mail (Some app) render [] recipient subject template
                  context = (Inr th, [e])))
   \<and> (config app ''NAMENEST_MAIL_SUBJECT_PREFIX'' = Some prefix
        \<and> config app ''NAMENEST_MAIL_SENDER'' = Some sndr
        \<and> (render (template @ ''.txt'') context = Inl e'
            \<or> (\<exists>b'. render (template @ ''.txt'') context = Inr b')
               \<and> render (template @ ''.html'') context = Inl e') \<longrightarrow>
          send_async_email (Some app) render started recipient subject template context
            = (Inl e', started))"
  by (auto simp: send_async_email_then_run_def send_async_email_def thread_run_def
      send_email_def Let_def split: prod.splits)

theorem detached_send_failure_stays_in_thread_witness:
  "(\<forall>msg. mail_refused \<lparr>config = Config\<rparr> msg = Inl (OtherError ''ConnectionRefusedError''))
   \<and> (\<exists>th. send_async_email_then_run mail_refused (Some \<lparr>config = Config\<rparr>) render_name []
          ''a@example.com'' ''Confirm'' ''confirm'' confirm_context
        = (Inr th, [OtherError ''ConnectionRefusedError'']))"
proof -
  have p: "config \<lparr>config = Config\<rparr> ''NAMENEST_MAIL_SUBJECT_PREFIX'' = Some ''[NameNest]''"
    by (simp add: Config_def)
  have s: "config \<lparr>config = Config\<rparr> ''NAMENEST_MAIL_SENDER''
             = Some ''NameNest Admin <namenest@gmail.com>''"
    by (simp add: Config_def)
  have t: "render_name (''confirm'' @ ''.txt'') confirm_context = Inr ''rendered confirm.txt''"
    by (simp add: render_name_def)
  have h: "render_name (''confirm'' @ ''.html'') confirm_context = Inr ''rendered confirm.html''"
    by (simp add: render_name_def)
  have m: "\<forall>msg. mail_refused \<lparr>config = Config\<rparr> msg = Inl (OtherError ''ConnectionRefusedError'')"
    by (simp add: mail_refused_def)
  show ?thesis
    using p s t h m
      detached_send_failure_stays_in_thread [of mail_refused "Some \<lparr>config = Config\<rparr>" render_name
        "[]" "''a@example.com''" "''Confirm''" "''confirm''" confirm_context "\<lparr>config = Config\<rparr>"
        "''[NameNest]''" "''NameNest Admin <namenest@gmail.com>''" "''rendered confirm.txt''"
        "''rendered confirm.html''" "OtherError ''ConnectionRefusedError''"]
    by blast
qed

end
